theory Spec2Isabelle
  imports Complex_Main "HOL-Library.Log_Nat"
begin

section \<open>JavaScript numbers\<close>

text \<open>
  A JavaScript Number is an IEEE 754 binary64 value. Every finite one is a rational, so a
  Number is modelled by the real it denotes, and each arithmetic operation of the source
  is the exact operation followed by a rounding \<open>rnd\<close>. Two roundings are used:
  \<^item> \<open>exact\<close>: no rounding at all, the arithmetic of the reals;
  \<^item> \<open>binary64\<close>: round to nearest, ties to even, 53 significant bits, which is what
    the program runs on. The exponent range is not bounded here: every number the program
    computes lies far inside the normal range of binary64, and no operation of the
    program gives NaN or an infinity on finite operands (its divisors are the literals
    2 and 6).
  Loop counters and array indices (\<open>row\<close>, \<open>col\<close>, \<open>index\<close>, \<open>id\<close>) are small integers,
  on which binary64 is exact; they are modelled as \<open>nat\<close> and \<open>int\<close>.
\<close>

type_synonym rounding = "real \<Rightarrow> real"

definition exact :: rounding where
  "exact x = x"

text \<open>\<open>ilog2 x\<close> is the binary exponent of a positive \<open>x\<close>, computed on integers.\<close>

definition ilog2 :: "real \<Rightarrow> int" where
  "ilog2 x = (if 1 \<le> x then int (floorlog 2 (nat \<lfloor>x\<rfloor>)) - 1
              else - int (floorlog 2 (nat (\<lceil>1 / x\<rceil> - 1))))"

definition pow2 :: "int \<Rightarrow> real" where
  "pow2 e = (if 0 \<le> e then 2 ^ nat e else 1 / 2 ^ nat (- e))"

text \<open>Round to the nearest integer, a tie to the even neighbour.\<close>

definition rne :: "real \<Rightarrow> int" where
  "rne y = (let f = \<lfloor>y\<rfloor>; d = y - of_int f
            in if d < 1 / 2 then f else if 1 / 2 < d then f + 1
               else if even f then f else f + 1)"

definition binary64 :: rounding where
  "binary64 x = (if x = 0 then 0
                 else let e = ilog2 \<bar>x\<bar> - 52 in of_int (rne (x / pow2 e)) * pow2 e)"

text \<open>Truncation toward zero, as in the conversions of Web IDL and in \<open>%\<close>.\<close>

definition trunc :: "real \<Rightarrow> int" where
  "trunc x = (if x < 0 then - \<lfloor>- x\<rfloor> else \<lfloor>x\<rfloor>)"

text \<open>
  The remainder operator \<open>a % b\<close> on Numbers: the result has the sign of the dividend
  and is exactly representable, so no rounding follows. (\<open>b\<close> is a non-zero literal at
  every use in the program.)
\<close>

definition js_rem :: "real \<Rightarrow> real \<Rightarrow> real" where
  "js_rem a b = a - b * of_int (trunc (a / b))"

text \<open>The same operator on integer-valued operands.\<close>

definition js_rem_int :: "int \<Rightarrow> int \<Rightarrow> int" where
  "js_rem_int a b = sgn a * (\<bar>a\<bar> mod \<bar>b\<bar>)"

text \<open>
  \<open>Math.round\<close> rounds to the nearest integer, a tie upward: it is \<open>round\<close> of HOL,
  \<open>round x = \<lfloor>x + 1/2\<rfloor>\<close>.
\<close>

definition Math_round :: "real \<Rightarrow> int" where
  "Math_round x = round x"

text \<open>
  Reading \<open>a[k]\<close> of an array: a key that is not an index of the array gives
  \<open>undefined\<close>, here \<open>None\<close>. (A negative zero is the key \<open>0\<close>.)
\<close>

definition array_get :: "'a list \<Rightarrow> int \<Rightarrow> 'a option" where
  "array_get a k = (if 0 \<le> k \<and> k < int (length a) then Some (a ! nat k) else None)"

section \<open>The canvas\<close>

text \<open>
  A 2D canvas is its pixel dimensions and the drawing operations applied to it, oldest
  first. The state of the context (\<open>fillStyle\<close>, \<open>strokeStyle\<close>, \<open>lineWidth\<close>, \<open>font\<close>,
  the transform set between \<open>save\<close> and \<open>restore\<close>) is resolved into each operation:
  \<^item> \<open>FillRect style x y w h\<close>;
  \<^item> \<open>StrokeRect style lineWidth x y w h\<close>;
  \<^item> \<open>StrokeLine style lineWidth x0 y0 x1 y1\<close> for
    \<open>beginPath(); moveTo(x0, y0); lineTo(x1, y1); stroke()\<close>;
  \<^item> \<open>FillText style bold px family baseline text tx ty d\<close> for a text drawn at the
    origin after \<open>translate(tx, ty); rotate(Math.PI / d)\<close>;
  \<^item> \<open>DrawImage source x y w h\<close>.
\<close>

datatype canvas = Canvas (width: nat) (height: nat) (ops: "draw_op list")
  and draw_op =
      FillRect string real real real real
    | StrokeRect string real real real real real
    | StrokeLine string real real real real real
    | FillText string bool real string string string real real real
    | DrawImage canvas real real real real

datatype error = TypeError | InvalidStateError

text \<open>
  \<open>canvas.width = v\<close> and \<open>canvas.height = v\<close> store an \<open>unsigned long\<close>: the Number is
  truncated toward zero and reduced modulo \<open>2^32\<close>; a value above \<open>2^31 - 1\<close> is replaced
  by the attribute's default (300 for the width, 150 for the height). There is no
  rounding to nearest.
\<close>

definition to_unsigned_long :: "real \<Rightarrow> nat" where
  "to_unsigned_long v = nat (trunc v mod 2 ^ 32)"

definition reflect_dim :: "nat \<Rightarrow> nat \<Rightarrow> nat" where
  "reflect_dim dflt n = (if n \<le> 2147483647 then n else dflt)"

definition canvas_width :: "real \<Rightarrow> nat" where
  "canvas_width v = reflect_dim 300 (to_unsigned_long v)"

definition canvas_height :: "real \<Rightarrow> nat" where
  "canvas_height v = reflect_dim 150 (to_unsigned_long v)"




section \<open>aruco.js: the fiducial dictionary and encoder\<close>

definition ARUCO_DICT_4X4_50 :: "nat list list list" where
  "ARUCO_DICT_4X4_50 =
    [[[0, 0, 0, 0], [0, 1, 0, 1], [1, 1, 0, 0], [0, 1, 1, 1]],
     [[1, 0, 0, 1], [0, 1, 0, 1], [1, 0, 0, 0], [0, 1, 0, 1]],
     [[1, 1, 0, 0], [0, 0, 1, 1], [1, 0, 0, 1], [1, 0, 1, 0]],
     [[0, 1, 1, 0], [0, 0, 1, 1], [1, 1, 0, 1], [1, 0, 0, 0]],
     [[0, 0, 1, 1], [1, 1, 0, 0], [0, 1, 1, 0], [1, 1, 0, 1]],
     [[1, 0, 1, 0], [1, 1, 0, 0], [0, 0, 1, 0], [1, 1, 1, 1]],
     [[1, 1, 1, 1], [0, 0, 0, 1], [0, 0, 0, 1], [0, 0, 0, 0]],
     [[0, 1, 0, 1], [0, 0, 0, 1], [0, 1, 0, 1], [0, 0, 1, 0]],
     [[0, 0, 0, 1], [1, 0, 1, 0], [1, 1, 1, 0], [1, 0, 0, 1]],
     [[1, 0, 0, 0], [1, 0, 1, 0], [1, 0, 1, 0], [1, 0, 1, 1]],
     [[0, 1, 1, 1], [1, 1, 1, 0], [0, 0, 1, 1], [0, 1, 0, 0]],
     [[1, 1, 1, 0], [1, 1, 1, 0], [0, 1, 1, 1], [0, 0, 0, 0]]]"

text \<open>
  One data cell of the inner double loop: \<open>pattern[row][col] === 1\<close> selects the fill
  style, then \<open>fillRect(borderSize + cellSize * (col + 1), borderSize + cellSize * (row + 1),
  cellSize, cellSize)\<close>.
\<close>

definition dataCell :: "rounding \<Rightarrow> nat list list \<Rightarrow> real \<Rightarrow> real \<Rightarrow> nat \<Rightarrow> nat \<Rightarrow> draw_op" where
  "dataCell rnd pattern borderSize cellSize row col =
     FillRect (if pattern ! row ! col = 1 then ''#000000'' else ''#FFFFFF'')
       (rnd (borderSize + rnd (cellSize * real (col + 1))))
       (rnd (borderSize + rnd (cellSize * real (row + 1))))
       cellSize cellSize"

text \<open>The double loop over \<open>row\<close> and \<open>col\<close>, row by row.\<close>

definition dataCells :: "rounding \<Rightarrow> nat list list \<Rightarrow> real \<Rightarrow> real \<Rightarrow> draw_op list" where
  "dataCells rnd pattern borderSize cellSize =
     concat (map (\<lambda>row. map (dataCell rnd pattern borderSize cellSize row) [0..<4]) [0..<4])"

text \<open>
  \<open>createArucoMarker(id, size, borderSize)\<close>. The three fills of the frame come first;
  then the pattern is looked up at \<open>id % ARUCO_DICT_4X4_50.length\<close>. When the lookup
  gives \<open>undefined\<close>, the first \<open>pattern[row]\<close> throws a TypeError.
\<close>

definition createArucoMarker :: "rounding \<Rightarrow> int \<Rightarrow> real \<Rightarrow> real \<Rightarrow> error + canvas" where
  "createArucoMarker rnd mid size' borderSize =
     (let totalSize = rnd (size' + rnd (borderSize * 2));
          cellSize = rnd (size' / 6);
          inner = rnd (size' - rnd (cellSize * 2));
          frame = [FillRect ''#FFFFFF'' 0 0 totalSize totalSize,
                   FillRect ''#000000'' borderSize borderSize size' size',
                   FillRect ''#FFFFFF'' (rnd (borderSize + cellSize)) (rnd (borderSize + cellSize))
                     inner inner]
      in case array_get ARUCO_DICT_4X4_50 (js_rem_int mid (int (length ARUCO_DICT_4X4_50))) of
           None \<Rightarrow> Inl TypeError
         | Some pattern \<Rightarrow>
             Inr (Canvas (canvas_width totalSize) (canvas_height totalSize)
               (frame @ dataCells rnd pattern borderSize cellSize)))"

text \<open>
  \<open>ARUCO_POSITIONS\<close>, the placement table aruco.js exports: id, position, side, label.
\<close>

datatype side = Left | Right

definition ARUCO_POSITIONS :: "rounding \<Rightarrow> (int \<times> real \<times> side \<times> string) list" where
  "ARUCO_POSITIONS rnd =
    [(8, 0, Left, ''0m''), (9, 1, Left, ''1m''),
     (10, rnd (18 / 10), Left, ''1.8m''), (11, rnd (24 / 10), Left, ''2.4m''),
     (0, 0, Right, ''0m''), (1, 1, Right, ''1m''),
     (2, rnd (18 / 10), Right, ''1.8m''), (3, rnd (24 / 10), Right, ''2.4m'')]"

section \<open>config.js: the configuration\<close>

text \<open>
  Of \<open>MAT_CONFIG\<close> the dimensions, the zone boundaries and the tick spacings are kept;
  the remaining entries (colours, names, line sizes, the \<open>aruco\<close>, \<open>rulerZone\<close> and
  \<open>visual\<close> groups) are read by no function of the generator.
\<close>

record zone =
  zstart :: real
  zend :: real

record zones =
  takeoff :: zone
  flight :: zone
  landing :: zone
  extended :: zone

record scales =
  fine_spacing :: real
  medium_spacing :: real
  major_spacing :: real

record mat_config =
  totalLength :: real
  totalWidth :: real
  zones :: zones
  scales :: scales

definition MAT_CONFIG :: "rounding \<Rightarrow> mat_config" where
  "MAT_CONFIG rnd =
    \<lparr>totalLength = 3, totalWidth = rnd (9 / 10),
     zones = \<lparr>takeoff = \<lparr>zstart = - rnd (3 / 10), zend = 0\<rparr>,
              flight = \<lparr>zstart = 0, zend = rnd (14 / 10)\<rparr>,
              landing = \<lparr>zstart = rnd (14 / 10), zend = rnd (28 / 10)\<rparr>,
              extended = \<lparr>zstart = rnd (28 / 10), zend = 3\<rparr>\<rparr>,
     scales = \<lparr>fine_spacing = rnd (1 / 100), medium_spacing = rnd (1 / 10),
               major_spacing = 1\<rparr>\<rparr>"

section \<open>matGenerator.js: the generator\<close>

text \<open>
  The options object of the constructor: an absent property is \<open>None\<close>.
\<close>

record options =
  o_totalLength :: "real option"
  o_totalWidth :: "real option"
  o_zones :: "zones option"
  o_scales :: "scales option"
  o_pixelsPerMeter :: "real option"

definition no_options :: options where
  "no_options = \<lparr>o_totalLength = None, o_totalWidth = None, o_zones = None,
                  o_scales = None, o_pixelsPerMeter = None\<rparr>"

record generator =
  config :: mat_config
  pixelsPerMeter :: real

text \<open>
  The constructor: \<open>this.config = { ...MAT_CONFIG, ...options }\<close> and
  \<open>this.pixelsPerMeter = options.pixelsPerMeter || 1200\<close>, where an absent or zero
  value is falsy. Nothing is checked.
\<close>

definition MatGenerator :: "rounding \<Rightarrow> options \<Rightarrow> generator" where
  "MatGenerator rnd options =
    \<lparr>config =
       \<lparr>totalLength = (case o_totalLength options of Some v \<Rightarrow> v | None \<Rightarrow> totalLength (MAT_CONFIG rnd)),
        totalWidth = (case o_totalWidth options of Some v \<Rightarrow> v | None \<Rightarrow> totalWidth (MAT_CONFIG rnd)),
        zones = (case o_zones options of Some v \<Rightarrow> v | None \<Rightarrow> zones (MAT_CONFIG rnd)),
        scales = (case o_scales options of Some v \<Rightarrow> v | None \<Rightarrow> scales (MAT_CONFIG rnd))\<rparr>,
     pixelsPerMeter =
       (case o_pixelsPerMeter options of Some p \<Rightarrow> if p = 0 then 1200 else p | None \<Rightarrow> 1200)\<rparr>"

definition colors_background :: string where "colors_background = ''#1a1a1a''"
definition colors_border :: string where "colors_border = ''#c9a227''"
definition colors_scaleYellow :: string where "colors_scaleYellow = ''#c9a227''"
definition colors_scaleFine :: string where "colors_scaleFine = ''#c9a227''"
definition colors_textGold :: string where "colors_textGold = ''#c9a227''"
definition colors_arucoWhite :: string where "colors_arucoWhite = ''#ffffff''"

text \<open>The locals \<open>width\<close> and \<open>height\<close> of \<open>initCanvas\<close>.\<close>

definition initCanvas_width :: "rounding \<Rightarrow> generator \<Rightarrow> real" where
  "initCanvas_width rnd g = rnd (rnd (totalLength (config g) + rnd (3 / 10)) * pixelsPerMeter g)"

definition initCanvas_height :: "rounding \<Rightarrow> generator \<Rightarrow> real" where
  "initCanvas_height rnd g = rnd (totalWidth (config g) * pixelsPerMeter g)"

definition initCanvas :: "rounding \<Rightarrow> generator \<Rightarrow> canvas" where
  "initCanvas rnd g =
     Canvas (canvas_width (initCanvas_width rnd g)) (canvas_height (initCanvas_height rnd g)) []"

definition meterToPixel :: "rounding \<Rightarrow> generator \<Rightarrow> real \<Rightarrow> real" where
  "meterToPixel rnd g meter = rnd (meter * pixelsPerMeter g)"

definition getX :: "rounding \<Rightarrow> generator \<Rightarrow> real \<Rightarrow> real" where
  "getX rnd g position = meterToPixel rnd g (rnd (position + rnd (3 / 10)))"

text \<open>A pass draws on the canvas: its operations are appended.\<close>

definition draw :: "canvas \<Rightarrow> draw_op list \<Rightarrow> canvas" where
  "draw c new = Canvas (width c) (height c) (ops c @ new)"

subsection \<open>Background\<close>

text \<open>
  \<open>rand\<close> is the sequence of values \<open>Math.random()\<close> returns, three for each of the
  fifty specks.
\<close>

definition speck :: "rounding \<Rightarrow> (nat \<Rightarrow> real) \<Rightarrow> canvas \<Rightarrow> nat \<Rightarrow> draw_op" where
  "speck rnd rand c i =
     (let x = rnd (rand (3 * i) * real (width c));
          y = rnd (rand (3 * i + 1) * real (height c));
          size' = rnd (rnd (rand (3 * i + 2) * 2) + 1 / 2)
      in FillRect ''rgba(0, 0, 0, 0.1)'' x y size' size')"

definition drawBackground :: "rounding \<Rightarrow> (nat \<Rightarrow> real) \<Rightarrow> generator \<Rightarrow> canvas \<Rightarrow> draw_op list" where
  "drawBackground rnd rand g c =
     FillRect colors_background 0 0 (real (width c)) (real (height c))
       # map (speck rnd rand c) [0..<50]"

subsection \<open>Border\<close>

definition drawBorder :: "rounding \<Rightarrow> generator \<Rightarrow> canvas \<Rightarrow> draw_op list" where
  "drawBorder rnd g c =
     (let width = real (width c); height = real (height c);
          borderWidth = meterToPixel rnd g (rnd (8 / 1000));
          innerOffset = meterToPixel rnd g (rnd (15 / 1000))
      in [StrokeRect colors_border borderWidth (rnd (borderWidth / 2)) (rnd (borderWidth / 2))
            (rnd (width - borderWidth)) (rnd (height - borderWidth)),
          StrokeRect ''rgba(201, 162, 39, 0.3)'' 1 innerOffset innerOffset
            (rnd (width - rnd (innerOffset * 2))) (rnd (height - rnd (innerOffset * 2)))])"

subsection \<open>Fiducial markers\<close>

definition arucoPositions :: "rounding \<Rightarrow> real list" where
  "arucoPositions rnd = [0, 1, rnd (18 / 10), rnd (24 / 10)]"

definition leftId :: "nat \<Rightarrow> int" where
  "leftId index = int index"

definition rightId :: "nat \<Rightarrow> int" where
  "rightId index = int index + 4"

text \<open>Sequencing of steps that may throw: the first exception ends the run.\<close>

definition and_then :: "error + 'a \<Rightarrow> ('a \<Rightarrow> error + 'b) \<Rightarrow> error + 'b" where
  "and_then r f = (case r of Inl e \<Rightarrow> Inl e | Inr v \<Rightarrow> f v)"

text \<open>
  \<open>drawImage\<close> of a canvas with a zero dimension throws an InvalidStateError.
\<close>

definition drawImage :: "canvas \<Rightarrow> real \<Rightarrow> real \<Rightarrow> real \<Rightarrow> real \<Rightarrow> error + draw_op" where
  "drawImage src x y w h =
     (if width src = 0 \<or> height src = 0 then Inl InvalidStateError
      else Inr (DrawImage src x y w h))"

text \<open>The body of the \<open>forEach\<close> callback, for one position and its index.\<close>

definition placeMarkers :: "rounding \<Rightarrow> generator \<Rightarrow> canvas \<Rightarrow> real \<Rightarrow> nat \<Rightarrow> error + draw_op list" where
  "placeMarkers rnd g c pos index =
     (let size' = meterToPixel rnd g (rnd (8 / 100));
          quietZone = meterToPixel rnd g (rnd (15 / 1000));
          totalSize = rnd (size' + rnd (quietZone * 2));
          margin = meterToPixel rnd g (rnd (2 / 100));
          x = getX rnd g pos;
          leftY = margin;
          rightY = rnd (rnd (real (height c) - totalSize) - margin)
      in and_then (createArucoMarker rnd (leftId index) size' 0) (\<lambda>leftMarker.
         and_then (drawImage leftMarker (rnd (x - rnd (size' / 2))) (rnd (leftY + quietZone))
                     size' size') (\<lambda>leftImage.
         and_then (createArucoMarker rnd (rightId index) size' 0) (\<lambda>rightMarker.
         and_then (drawImage rightMarker (rnd (x - rnd (size' / 2))) (rnd (rightY + quietZone))
                     size' size') (\<lambda>rightImage.
         Inr [FillRect colors_arucoWhite (rnd (x - rnd (totalSize / 2))) leftY totalSize totalSize,
              leftImage,
              FillRect colors_arucoWhite (rnd (x - rnd (totalSize / 2))) rightY totalSize totalSize,
              rightImage])))))"

text \<open>Running the callbacks in order: the first exception ends the pass.\<close>

fun in_order :: "(error + draw_op list) list \<Rightarrow> error + draw_op list" where
  "in_order [] = Inr []"
| "in_order (r # rs) = and_then r (\<lambda>new. and_then (in_order rs) (\<lambda>later. Inr (new @ later)))"

definition drawArucoMarkers :: "rounding \<Rightarrow> generator \<Rightarrow> canvas \<Rightarrow> error + draw_op list" where
  "drawArucoMarkers rnd g c =
     in_order (map (\<lambda>(pos, index). placeMarkers rnd g c pos index)
                   (zip (arucoPositions rnd) [0..<length (arucoPositions rnd)]))"

subsection \<open>Tick loops\<close>

text \<open>
  \<open>for (let pos = start; pos <= stop; pos += step) body\<close>, where the body does not
  assign \<open>pos\<close>: the values of \<open>pos\<close> the body runs with, in order. The result is
  \<open>None\<close> when the loop does not end.
\<close>

partial_function (option) for_positions :: "rounding \<Rightarrow> real \<Rightarrow> real \<Rightarrow> real \<Rightarrow> real list option" where
  "for_positions rnd stop step pos =
     (if pos \<le> stop
      then Option.bind (for_positions rnd stop step (rnd (pos + step))) (\<lambda>rest. Some (pos # rest))
      else Some [])"

subsection \<open>Coarse ticks of the flight zone\<close>

text \<open>
  \<open>const height = (pos * 10) % 5 === 0 ? this.meterToPixel(0.25) : this.meterToPixel(0.15)\<close>
\<close>

definition takeoffTickHeight :: "rounding \<Rightarrow> generator \<Rightarrow> real \<Rightarrow> real" where
  "takeoffTickHeight rnd g pos =
     (if js_rem (rnd (pos * 10)) 5 = 0 then meterToPixel rnd g (1 / 4)
      else meterToPixel rnd g (rnd (15 / 100)))"

definition takeoffTick :: "rounding \<Rightarrow> generator \<Rightarrow> real \<Rightarrow> real \<Rightarrow> draw_op" where
  "takeoffTick rnd g centerY pos =
     (let x = getX rnd g pos; height = takeoffTickHeight rnd g pos
      in StrokeLine colors_scaleYellow (meterToPixel rnd g (rnd (2 / 1000)))
           x (rnd (centerY - rnd (height / 2))) x (rnd (centerY + rnd (height / 2))))"

definition drawTakeoffZoneScales :: "rounding \<Rightarrow> generator \<Rightarrow> canvas \<Rightarrow> draw_op list option" where
  "drawTakeoffZoneScales rnd g c =
     (let startX = getX rnd g 0;
          centerY = rnd (real (height c) / 2);
          originLine = StrokeLine colors_scaleYellow (meterToPixel rnd g (rnd (4 / 1000)))
                         startX 0 startX (real (height c))
      in case for_positions rnd (rnd (14 / 10)) (rnd (1 / 10)) (rnd (1 / 10)) of
           None \<Rightarrow> None
         | Some ps \<Rightarrow> Some (originLine # map (takeoffTick rnd g centerY) ps))"

subsection \<open>Fine ticks of the precision zone\<close>

text \<open>
  The chain of tests on \<open>cmValue\<close>, giving \<open>height\<close> and \<open>lineWidth\<close>.
\<close>

definition precisionTickSize :: "rounding \<Rightarrow> generator \<Rightarrow> int \<Rightarrow> real \<times> real" where
  "precisionTickSize rnd g cmValue =
     (if js_rem_int cmValue 100 = 0
        then (meterToPixel rnd g (rnd (45 / 100)), meterToPixel rnd g (rnd (3 / 1000)))
      else if js_rem_int cmValue 50 = 0
        then (meterToPixel rnd g (rnd (35 / 100)), meterToPixel rnd g (rnd (25 / 10000)))
      else if js_rem_int cmValue 10 = 0
        then (meterToPixel rnd g (1 / 4), meterToPixel rnd g (rnd (2 / 1000)))
      else (meterToPixel rnd g (rnd (12 / 100)), meterToPixel rnd g (rnd (12 / 10000))))"

definition cmValue :: "rounding \<Rightarrow> real \<Rightarrow> int" where
  "cmValue rnd pos = Math_round (rnd (pos * 100))"

definition precisionTick :: "rounding \<Rightarrow> generator \<Rightarrow> real \<Rightarrow> real \<Rightarrow> draw_op" where
  "precisionTick rnd g centerY pos =
     (let x = getX rnd g pos;
          (height, lineWidth) = precisionTickSize rnd g (cmValue rnd pos)
      in StrokeLine colors_scaleFine lineWidth
           x (rnd (centerY - rnd (height / 2))) x (rnd (centerY + rnd (height / 2))))"

definition extensionTick :: "rounding \<Rightarrow> generator \<Rightarrow> real \<Rightarrow> real \<Rightarrow> draw_op" where
  "extensionTick rnd g centerY pos =
     (let x = getX rnd g pos; height = meterToPixel rnd g (rnd (2 / 10))
      in StrokeLine colors_scaleFine (meterToPixel rnd g (rnd (2 / 1000)))
           x (rnd (centerY - rnd (height / 2))) x (rnd (centerY + rnd (height / 2))))"

definition drawPrecisionZoneScales :: "rounding \<Rightarrow> generator \<Rightarrow> canvas \<Rightarrow> draw_op list option" where
  "drawPrecisionZoneScales rnd g c =
     (let startPos = rnd (14 / 10); endPos = rnd (28 / 10);
          centerY = rnd (real (height c) / 2)
      in case for_positions rnd endPos (rnd (1 / 100)) startPos of
           None \<Rightarrow> None
         | Some ps \<Rightarrow>
             (case for_positions rnd 3 (rnd (1 / 10)) (rnd (29 / 10)) of
                None \<Rightarrow> None
              | Some qs \<Rightarrow>
                  Some (map (precisionTick rnd g centerY) ps @ map (extensionTick rnd g centerY) qs)))"

subsection \<open>Labels\<close>

text \<open>
  \<open>drawSimplifiedLabels\<close> is the labelling pass \<open>generate\<close> calls (\<open>drawLabels\<close> is
  called nowhere and is left out). Every text is centred (\<open>textAlign = 'center'\<close>). The
  two Chinese captions are given by their UTF-8 bytes.
\<close>

definition font_sans :: string where
  "font_sans = ''\"PingFang SC\", \"Microsoft YaHei\", sans-serif''"

definition font_mono :: string where
  "font_mono = ''\"JetBrains Mono\", monospace''"

definition keyLabels :: "rounding \<Rightarrow> (real \<times> string) list" where
  "keyLabels rnd =
    [(0, ''0''), (1 / 2, ''500mm''), (1, ''1000mm''), (3 / 2, ''1.5m''),
     (rnd (16 / 10), ''1.6m''), (rnd (17 / 10), ''1.7m''), (rnd (18 / 10), ''1.8m''),
     (rnd (19 / 10), ''1.9m''), (2, ''2.0m''), (rnd (21 / 10), ''2.1m''),
     (rnd (22 / 10), ''2.2m''), (rnd (23 / 10), ''2.3m''), (rnd (24 / 10), ''2.4m''),
     (5 / 2, ''2.5m''), (rnd (26 / 10), ''2.6m''), (rnd (27 / 10), ''2.7m''),
     (rnd (28 / 10), ''2.8m''), (rnd (29 / 10), ''2.9m''), (3, ''3.0m'')]"

definition keyLabel :: "rounding \<Rightarrow> generator \<Rightarrow> canvas \<Rightarrow> real \<times> string \<Rightarrow> draw_op" where
  "keyLabel rnd g c item =
     (let pos = fst item; label = snd item;
          tx = getX rnd g pos;
          ty = rnd (real (height c) - meterToPixel rnd g (rnd (4 / 100)))
      in if 3 / 2 \<le> pos \<and> CHR ''m'' \<in> set label
         then FillText colors_textGold True (meterToPixel rnd g (rnd (18 / 1000))) font_mono
                ''top'' label tx ty (- 4)
         else FillText colors_textGold False (meterToPixel rnd g (rnd (14 / 1000))) font_mono
                ''top'' label tx ty (- 4))"

definition drawSimplifiedLabels :: "rounding \<Rightarrow> generator \<Rightarrow> canvas \<Rightarrow> draw_op list" where
  "drawSimplifiedLabels rnd g c =
     [FillText colors_textGold True (meterToPixel rnd g (rnd (35 / 1000))) font_sans ''middle''
        (''0mm ('' @ map char_of [0xE8 :: nat, 0xB5, 0xB7, 0xE8, 0xB7, 0xB3, 0xE7, 0xBA, 0xBF] @ '')'')
        (getX rnd g (- rnd (8 / 100))) (rnd (real (height c) / 2)) 2,
      FillText colors_textGold True (meterToPixel rnd g (rnd (3 / 100))) font_sans ''middle''
        (''1.4m ('' @ map char_of [0xE7 :: nat, 0xB2, 0xBE, 0xE5, 0xAF, 0x86, 0xE5, 0x8C, 0xBA,
                                   0xE8, 0xB5, 0xB7, 0xE7, 0x82, 0xB9] @ '')'')
        (getX rnd g (rnd (135 / 100))) (rnd (real (height c) / 2)) 2]
     @ map (keyLabel rnd g c) (keyLabels rnd)"

subsection \<open>generate\<close>

text \<open>
  \<open>generate\<close> allocates the canvas and runs the six passes in the order of the source.
  The result is \<open>None\<close> if a tick loop does not end, \<open>Some (Inl e)\<close> if a pass throws
  \<open>e\<close>, and \<open>Some (Inr c)\<close> with the finished canvas otherwise.
\<close>

definition generate :: "rounding \<Rightarrow> (nat \<Rightarrow> real) \<Rightarrow> generator \<Rightarrow> (error + canvas) option" where
  "generate rnd rand g =
     (let c0 = initCanvas rnd g;
          c1 = draw c0 (drawBackground rnd rand g c0)
      in case drawTakeoffZoneScales rnd g c1 of
           None \<Rightarrow> None
         | Some takeoffOps \<Rightarrow>
             (let c2 = draw c1 takeoffOps
              in case drawPrecisionZoneScales rnd g c2 of
                   None \<Rightarrow> None
                 | Some precisionOps \<Rightarrow>
                     (let c3 = draw c2 precisionOps;
                          c4 = draw c3 (drawSimplifiedLabels rnd g c3);
                          c5 = draw c4 (drawBorder rnd g c4)
                      in Some (and_then (drawArucoMarkers rnd g c5) (\<lambda>markerOps.
                                 Inr (draw c5 markerOps))))))"

section \<open>Notions of the specification\<close>

text \<open>
  The tick rules of the precision zone in the specification's words: a tick at a whole
  number of centimetres satisfies the rule \<open>d\<close> when \<open>d\<close> divides it, and the selected
  tier is the coarsest rule satisfied. \<open>tierSize\<close> is the table of the four tiers of
  the source: the line length and line width drawn for each rule.
\<close>

definition tickRules :: "int list" where
  "tickRules = [100, 50, 10, 1]"

definition coarsestRule :: "int \<Rightarrow> int" where
  "coarsestRule cm = Max {d \<in> set tickRules. d dvd cm}"

definition tierSize :: "rounding \<Rightarrow> generator \<Rightarrow> int \<Rightarrow> real \<times> real" where
  "tierSize rnd g d =
     (if d = 100 then (meterToPixel rnd g (rnd (45 / 100)), meterToPixel rnd g (rnd (3 / 1000)))
      else if d = 50 then (meterToPixel rnd g (rnd (35 / 100)), meterToPixel rnd g (rnd (25 / 10000)))
      else if d = 10 then (meterToPixel rnd g (1 / 4), meterToPixel rnd g (rnd (2 / 1000)))
      else (meterToPixel rnd g (rnd (12 / 100)), meterToPixel rnd g (rnd (12 / 10000))))"




text \<open>
  A malformed configuration in the specification's words: zone boundaries that are not
  monotonic, or a spacing or the scale that is not positive.
\<close>

definition zone_boundaries :: "zones \<Rightarrow> real list" where
  "zone_boundaries z =
     [zstart (takeoff z), zend (takeoff z), zstart (flight z), zend (flight z),
      zstart (landing z), zend (landing z), zstart (extended z), zend (extended z)]"

definition malformed :: "generator \<Rightarrow> bool" where
  "malformed g \<longleftrightarrow>
     \<not> sorted (zone_boundaries (zones (config g)))
     \<or> fine_spacing (scales (config g)) \<le> 0
     \<or> medium_spacing (scales (config g)) \<le> 0
     \<or> major_spacing (scales (config g)) \<le> 0
     \<or> pixelsPerMeter g \<le> 0"

text \<open>Options with the flight zone reversed and a negative fine spacing.\<close>

definition reversed_options :: options where
  "reversed_options =
     no_options
       \<lparr>o_zones := Some \<lparr>takeoff = \<lparr>zstart = - 3 / 10, zend = 0\<rparr>,
                          flight = \<lparr>zstart = 14 / 10, zend = 0\<rparr>,
                          landing = \<lparr>zstart = 14 / 10, zend = 28 / 10\<rparr>,
                          extended = \<lparr>zstart = 28 / 10, zend = 3\<rparr>\<rparr>,
        o_scales := Some \<lparr>fine_spacing = - 1 / 100, medium_spacing = 1 / 10, major_spacing = 1\<rparr>\<rparr>"

section \<open>Auxiliary notions\<close>

text \<open>A run of \<open>generate\<close> that returns the finished canvas.\<close>

definition returns_canvas :: "(error + canvas) option \<Rightarrow> bool" where
  "returns_canvas r = (case r of Some (Inr c) \<Rightarrow> True | _ \<Rightarrow> False)"

text \<open>A fixed sequence for \<open>Math.random()\<close>.\<close>

definition fixed_random :: "nat \<Rightarrow> real" where
  "fixed_random i = 1 / 2"

text \<open>The source canvases of the images an operation list draws, in order.\<close>

fun drawnImages :: "draw_op list \<Rightarrow> canvas list" where
  "drawnImages [] = []"
| "drawnImages (DrawImage src x y w h # ds) = src # drawnImages ds"
| "drawnImages (d # ds) = drawnImages ds"

text \<open>
  The generator of the reference configuration at the default scale, on binary64.
\<close>

definition reference :: generator where
  "reference = MatGenerator binary64 no_options"

text \<open>
  The values of \<open>pos\<close> in the coarse tick loop on binary64, starting at \<open>0.1\<close> and
  adding \<open>0.1\<close> each time: the tenth is \<open>1 - 2^-53\<close>, not \<open>1\<close>.
\<close>

definition coarse_positions :: "real list" where
  "coarse_positions =
     [3602879701896397 / 36028797018963968, 3602879701896397 / 18014398509481984,
      1351079888211149 / 4503599627370496, 3602879701896397 / 9007199254740992,
      1 / 2, 5404319552844595 / 9007199254740992, 3152519739159347 / 4503599627370496,
      7205759403792793 / 9007199254740992, 2026619832316723 / 2251799813685248,
      9007199254740991 / 9007199254740992, 4953959590107545 / 4503599627370496,
      5404319552844595 / 4503599627370496, 5854679515581645 / 4503599627370496]"

text \<open>
  The side of the marker patches \<open>drawArucoMarkers\<close> asks for, as the canvas of the
  patch stores it: \<open>createArucoMarker(id, size, 0)\<close> sets both dimensions of its canvas
  to \<open>size + 0 * 2\<close>, where \<open>size\<close> is \<open>meterToPixel(0.08)\<close>.
\<close>

definition markerPatchSide :: "rounding \<Rightarrow> generator \<Rightarrow> nat" where
  "markerPatchSide rnd g =
     to_unsigned_long (rnd (meterToPixel rnd g (rnd (8 / 100)) + rnd (0 * 2)))"


section \<open>Properties of the arithmetic\<close>









text \<open>The rules that evaluate a binary64 rounding on a numeral.\<close>

lemmas b64 = binary64_def ilog2_def pow2_def rne_def compute_floorlog Let_def

lemma reference_fields:
  "pixelsPerMeter reference = 1200" "totalLength (config reference) = 3"
  "totalWidth (config reference) = binary64 (9 / 10)"
  by (simp_all add: reference_def MatGenerator_def no_options_def MAT_CONFIG_def)

section \<open>Properties of the encoder\<close>

lemma dict_length: "length ARUCO_DICT_4X4_50 = 12"
  by (simp add: ARUCO_DICT_4X4_50_def)

lemma js_rem_int_nonneg: "0 \<le> a \<Longrightarrow> 0 < n \<Longrightarrow> js_rem_int a n = a mod n"
  by (cases "a = 0") (simp_all add: js_rem_int_def)

lemma js_rem_int_neg:
  assumes "mid < 0" "\<not> n dvd mid" "0 < n"
  shows "js_rem_int mid n < 0"
proof -
  have "\<not> n dvd \<bar>mid\<bar>" using assms by simp
  then have "\<bar>mid\<bar> mod n \<noteq> 0" by (simp add: dvd_eq_mod_eq_0)
  moreover have "0 \<le> \<bar>mid\<bar> mod n" using assms by (intro pos_mod_sign)
  ultimately have "0 < \<bar>mid\<bar> mod \<bar>n\<bar>" using assms by linarith
  then show ?thesis using assms by (simp add: js_rem_int_def mult_neg_pos)
qed

lemma js_rem_int_zero_iff:
  assumes "0 < n"
  shows "js_rem_int a n = 0 \<longleftrightarrow> n dvd a"
proof -
  have "js_rem_int a n = 0 \<longleftrightarrow> a = 0 \<or> \<bar>a\<bar> mod n = 0"
    using assms by (simp add: js_rem_int_def sgn_if)
  also have "\<dots> \<longleftrightarrow> n dvd \<bar>a\<bar>"
    by (auto simp: dvd_eq_mod_eq_0)
  finally show ?thesis by simp
qed

text \<open>
  C10. For a negative id that is not a multiple of the dictionary size, the remainder
  \<open>id % N\<close> is negative, the lookup in the dictionary gives no pattern, and
  \<open>createArucoMarker\<close> ends with a TypeError, whatever the sizes are.
\<close>

theorem createArucoMarker_negative_id:
  assumes "mid < 0" and "\<not> int (length ARUCO_DICT_4X4_50) dvd mid"
  shows "js_rem_int mid (int (length ARUCO_DICT_4X4_50)) < 0
       \<and> array_get ARUCO_DICT_4X4_50 (js_rem_int mid (int (length ARUCO_DICT_4X4_50))) = None
       \<and> createArucoMarker rnd mid size' borderSize = Inl TypeError"
proof -
  have neg: "js_rem_int mid (int (length ARUCO_DICT_4X4_50)) < 0"
    using assms by (intro js_rem_int_neg) (simp_all add: dict_length)
  then have none: "array_get ARUCO_DICT_4X4_50 (js_rem_int mid (int (length ARUCO_DICT_4X4_50))) = None"
    by (simp add: array_get_def)
  show ?thesis using neg none by (simp add: createArucoMarker_def Let_def)
qed

theorem createArucoMarker_negative_id_witness:
  "(- 1 :: int) < 0 \<and> \<not> int (length ARUCO_DICT_4X4_50) dvd (- 1)
   \<and> js_rem_int (- 1) (int (length ARUCO_DICT_4X4_50)) < 0
   \<and> createArucoMarker binary64 (- 1) 128 16 = Inl TypeError"
  using createArucoMarker_negative_id [of "- 1" binary64 128 16]
  by (simp add: dict_length)

lemma createArucoMarker_returns:
  assumes "0 \<le> mid"
  shows "\<exists>c. createArucoMarker rnd mid size' borderSize = Inr c"
proof -
  have "0 \<le> mid mod 12" "mid mod 12 < 12" by simp_all
  then show ?thesis using assms
    by (simp add: createArucoMarker_def Let_def js_rem_int_nonneg dict_length array_get_def)
qed

text \<open>
  C3, as stated for every integer id, fails at \<open>id = -1\<close>: the call throws, while the
  call with \<open>id + N = 11\<close> returns a patch.
\<close>

theorem createArucoMarker_wraps_counterexample:
  "createArucoMarker binary64 (- 1) 96 0 = Inl TypeError
   \<and> createArucoMarker binary64 (- 1 + int (length ARUCO_DICT_4X4_50)) 96 0 \<noteq> Inl TypeError"
proof -
  have "\<exists>c. createArucoMarker binary64 11 96 0 = Inr c"
    by (rule createArucoMarker_returns) simp
  moreover have "createArucoMarker binary64 (- 1) 96 0 = Inl TypeError"
    by (simp add: createArucoMarker_def Let_def js_rem_int_def dict_length array_get_def)
  ultimately show ?thesis by (auto simp: dict_length)
qed

text \<open>
  C3, amended. For every id that is not negative and every core size, the calls with
  \<open>id\<close> and with \<open>id + N\<close> (no quiet border) return the same patch, and they do return
  one. This holds on any rounding.
\<close>

theorem createArucoMarker_wraps_nonneg:
  assumes "0 \<le> mid"
  shows "createArucoMarker rnd (mid + int (length ARUCO_DICT_4X4_50)) size' 0
           = createArucoMarker rnd mid size' 0
       \<and> (\<exists>c. createArucoMarker rnd mid size' 0 = Inr c)"
  using assms createArucoMarker_returns [OF assms, of rnd size' 0]
  by (simp add: createArucoMarker_def js_rem_int_nonneg dict_length)

theorem createArucoMarker_wraps_nonneg_witness:
  "(0 :: int) \<le> 3
   \<and> createArucoMarker binary64 (3 + int (length ARUCO_DICT_4X4_50)) 96 0 = createArucoMarker binary64 3 96 0
   \<and> (\<exists>c. createArucoMarker binary64 3 96 0 = Inr c)"
  using createArucoMarker_wraps_nonneg [of 3 binary64 96] by simp

subsection \<open>The picture of a patch\<close>



























section \<open>Properties of the coordinate transform\<close>



section \<open>Properties of the surface size\<close>

lemma canvas_dim_trunc:
  assumes "0 \<le> v" and "v < 2 ^ 31"
  shows "canvas_width v = nat \<lfloor>v\<rfloor> \<and> canvas_height v = nat \<lfloor>v\<rfloor>"
proof -
  have f: "0 \<le> \<lfloor>v\<rfloor>" "\<lfloor>v\<rfloor> < 2 ^ 31"
    using assms by (simp_all add: floor_less_iff)
  then have "\<lfloor>v\<rfloor> mod 2 ^ 32 = \<lfloor>v\<rfloor>" by simp
  then have "to_unsigned_long v = nat \<lfloor>v\<rfloor>"
    using assms by (simp add: to_unsigned_long_def trunc_def)
  moreover have "\<lfloor>v\<rfloor> \<le> 2147483647" using f(2) by simp
  then have "nat \<lfloor>v\<rfloor> \<le> 2147483647" by (simp add: nat_le_iff)
  ultimately show ?thesis
    by (simp add: canvas_width_def canvas_height_def reflect_dim_def)
qed

lemma reference_size:
  "initCanvas_width binary64 reference = 3960" "initCanvas_height binary64 reference = 1080"
  by (simp_all add: initCanvas_width_def initCanvas_height_def reference_fields b64)

text \<open>
  C7, as stated, fails for the reference configuration at 1001 pixels per metre: the
  height of the surface is 900, and \<open>round (totalWidth * pixelsPerMeter)\<close> is 901.
\<close>

theorem initCanvas_rounding_counterexample:
  "height (initCanvas binary64 (MatGenerator binary64 (no_options\<lparr>o_pixelsPerMeter := Some 1001\<rparr>))) = 900
   \<and> round (totalWidth (config (MatGenerator binary64 (no_options\<lparr>o_pixelsPerMeter := Some 1001\<rparr>)))
            * pixelsPerMeter (MatGenerator binary64 (no_options\<lparr>o_pixelsPerMeter := Some 1001\<rparr>))) = 901"
  by (simp add: initCanvas_def initCanvas_height_def MatGenerator_def no_options_def MAT_CONFIG_def
        canvas_height_def reflect_dim_def to_unsigned_long_def trunc_def round_def b64)

text \<open>
  C7, amended. Whenever the two products \<open>initCanvas\<close> computes lie in \<open>[0, 2^31)\<close>,
  the surface is as wide and as high as these products with the fraction dropped
  (truncation, not rounding to nearest), on any rounding; on exact arithmetic the
  products are \<open>(totalLength + 0.3) * pixelsPerMeter\<close> and
  \<open>totalWidth * pixelsPerMeter\<close>.
\<close>

theorem initCanvas_truncates:
  assumes "0 \<le> initCanvas_width rnd g" and "initCanvas_width rnd g < 2 ^ 31"
    and "0 \<le> initCanvas_height rnd g" and "initCanvas_height rnd g < 2 ^ 31"
  shows "width (initCanvas rnd g) = nat \<lfloor>initCanvas_width rnd g\<rfloor>
       \<and> height (initCanvas rnd g) = nat \<lfloor>initCanvas_height rnd g\<rfloor>
       \<and> initCanvas_width exact g = (totalLength (config g) + 3 / 10) * pixelsPerMeter g
       \<and> initCanvas_height exact g = totalWidth (config g) * pixelsPerMeter g"
  using canvas_dim_trunc [OF assms(1,2)] canvas_dim_trunc [OF assms(3,4)]
  by (simp add: initCanvas_def initCanvas_width_def initCanvas_height_def exact_def)

theorem initCanvas_truncates_witness:
  "0 \<le> initCanvas_width binary64 reference \<and> initCanvas_width binary64 reference < 2 ^ 31
   \<and> 0 \<le> initCanvas_height binary64 reference \<and> initCanvas_height binary64 reference < 2 ^ 31
   \<and> width (initCanvas binary64 reference) = 3960 \<and> height (initCanvas binary64 reference) = 1080"
  using initCanvas_truncates [of binary64 reference] by (simp add: reference_size)

section \<open>Properties of the coarse ticks\<close>

lemma coarse_positions_binary64:
  "for_positions binary64 (binary64 (14 / 10)) (binary64 (1 / 10)) (binary64 (1 / 10))
     = Some coarse_positions"
  by (simp add: b64 for_positions.simps coarse_positions_def)

lemma coarse_cm_binary64:
  "map (cmValue binary64) coarse_positions = [10, 20, 30, 40, 50, 60, 70, 80, 90, 100, 110, 120, 130]"
  by (simp add: cmValue_def Math_round_def round_def coarse_positions_def b64)

lemma coarse_heights_binary64:
  "map (takeoffTickHeight binary64 reference) coarse_positions
     = [180, 180, 180, 180, 300, 180, 180, 180, 180, 180, 180, 180, 180]"
  by (simp add: takeoffTickHeight_def meterToPixel_def reference_fields js_rem_def trunc_def b64
        coarse_positions_def)

lemma tall_tick_binary64: "meterToPixel binary64 reference (1 / 4) = 300"
  by (simp add: meterToPixel_def reference_fields b64)

lemma drawTakeoffZoneScales_binary64:
  "drawTakeoffZoneScales binary64 g c =
     Some (StrokeLine colors_scaleYellow (meterToPixel binary64 g (binary64 (4 / 1000)))
             (getX binary64 g 0) 0 (getX binary64 g 0) (real (height c))
           # map (takeoffTick binary64 g (binary64 (real (height c) / 2))) coarse_positions)"
  unfolding drawTakeoffZoneScales_def Let_def coarse_positions_binary64 by simp

text \<open>
  In exact arithmetic the loop runs for \<open>0.1, 0.2, \<dots>, 1.4\<close> and the test
  \<open>(pos * 10) % 5 === 0\<close> holds at the fifth and the tenth tick, as C6 says.
\<close>

lemma coarse_positions_exact:
  "for_positions exact (exact (14 / 10)) (exact (1 / 10)) (exact (1 / 10)) =
     Some [1 / 10, 2 / 10, 3 / 10, 4 / 10, 5 / 10, 6 / 10, 7 / 10, 8 / 10, 9 / 10, 1,
           11 / 10, 12 / 10, 13 / 10, 14 / 10]"
  by (simp add: exact_def for_positions.simps)

lemma coarse_tall_exact:
  "map (\<lambda>pos. js_rem (exact (pos * 10)) 5 = 0)
     [1 / 10, 2 / 10, 3 / 10, 4 / 10, 5 / 10, 6 / 10, 7 / 10, 8 / 10, 9 / 10, 1,
      11 / 10, 12 / 10, 13 / 10, 14 / 10]
   = [False, False, False, False, True, False, False, False, False, True,
      False, False, False, False]"
  by (simp add: exact_def js_rem_def trunc_def)

text \<open>
  C6 on the code. On binary64, with the reference generator, the loop runs thirteen
  times, for the ticks of 10 cm to 130 cm. The tenth value of \<open>pos\<close> is \<open>1 - 2^-53\<close>,
  ten times it rounds to \<open>10 - 2^-49\<close>, and its remainder by 5 is not 0: the tick of
  100 cm gets the short length 180 px (0.15 m), not the tall 300 px (0.25 m) that the
  tick of 50 cm gets. The fourteenth value exceeds \<open>1.4\<close>, so this pass draws no tick
  at 140 cm.
\<close>

theorem takeoff_ticks_binary64:
  "drawTakeoffZoneScales binary64 reference c =
     Some (StrokeLine colors_scaleYellow (meterToPixel binary64 reference (binary64 (4 / 1000)))
             (getX binary64 reference 0) 0 (getX binary64 reference 0) (real (height c))
           # map (takeoffTick binary64 reference (binary64 (real (height c) / 2))) coarse_positions)
   \<and> map (cmValue binary64) coarse_positions
        = [10, 20, 30, 40, 50, 60, 70, 80, 90, 100, 110, 120, 130]
   \<and> map (takeoffTickHeight binary64 reference) coarse_positions
        = [180, 180, 180, 180, 300, 180, 180, 180, 180, 180, 180, 180, 180]
   \<and> coarse_positions ! 9 = 9007199254740991 / 9007199254740992
   \<and> meterToPixel binary64 reference (1 / 4) = 300"
proof (intro conjI)
  show "coarse_positions ! 9 = 9007199254740991 / 9007199254740992"
    by (simp add: coarse_positions_def)
qed (fact drawTakeoffZoneScales_binary64 coarse_cm_binary64 coarse_heights_binary64
       tall_tick_binary64)+

section \<open>Properties of the marker pass\<close>

lemma reflect_dim_zero: "0 < d \<Longrightarrow> reflect_dim d n = 0 \<longleftrightarrow> n = 0"
  by (simp add: reflect_dim_def)

lemma createArucoMarker_patch:
  assumes "0 \<le> mid"
  shows "\<exists>c. createArucoMarker rnd mid s 0 = Inr c
       \<and> (width c = 0 \<longleftrightarrow> to_unsigned_long (rnd (s + rnd (0 * 2))) = 0)
       \<and> (height c = 0 \<longleftrightarrow> to_unsigned_long (rnd (s + rnd (0 * 2))) = 0)"
proof -
  have "0 \<le> mid mod 12" "mid mod 12 < 12" by simp_all
  then show ?thesis using assms
    by (simp add: createArucoMarker_def Let_def js_rem_int_nonneg dict_length array_get_def
          canvas_width_def canvas_height_def reflect_dim_zero)
qed

lemma drawnImages_append: "drawnImages (ds @ es) = drawnImages ds @ drawnImages es"
  by (induction ds rule: drawnImages.induct) simp_all

lemma placeMarkers_draws:
  assumes "markerPatchSide rnd g \<noteq> 0"
  shows "\<exists>new. placeMarkers rnd g c pos index = Inr new \<and> new \<noteq> []
       \<and> map Inr (drawnImages new)
           = [createArucoMarker rnd (leftId index) (meterToPixel rnd g (rnd (8 / 100))) 0,
              createArucoMarker rnd (rightId index) (meterToPixel rnd g (rnd (8 / 100))) 0]"
proof -
  let ?s = "meterToPixel rnd g (rnd (8 / 100))"
  obtain l where l: "createArucoMarker rnd (leftId index) ?s 0 = Inr l" "width l \<noteq> 0" "height l \<noteq> 0"
    using createArucoMarker_patch [of "leftId index" rnd ?s] assms
    by (auto simp: leftId_def markerPatchSide_def)
  obtain r where r: "createArucoMarker rnd (rightId index) ?s 0 = Inr r" "width r \<noteq> 0" "height r \<noteq> 0"
    using createArucoMarker_patch [of "rightId index" rnd ?s] assms
    by (auto simp: rightId_def markerPatchSide_def)
  show ?thesis
    using l r by (simp add: placeMarkers_def Let_def and_then_def drawImage_def)
qed

lemma placeMarkers_throws:
  assumes "markerPatchSide rnd g = 0"
  shows "placeMarkers rnd g c pos index = Inl InvalidStateError"
proof -
  let ?s = "meterToPixel rnd g (rnd (8 / 100))"
  obtain l where l: "createArucoMarker rnd (leftId index) ?s 0 = Inr l" "width l = 0"
    using createArucoMarker_patch [of "leftId index" rnd ?s] assms
    by (auto simp: leftId_def markerPatchSide_def)
  show ?thesis
    using l by (simp add: placeMarkers_def Let_def and_then_def drawImage_def)
qed

lemma marker_slots:
  "zip (arucoPositions rnd) [0..<length (arucoPositions rnd)]
     = [(0, 0), (1, 1), (rnd (18 / 10), 2), (rnd (24 / 10), 3)]"
  by (simp add: arucoPositions_def upt_rec)

lemma drawArucoMarkers_draws:
  assumes "markerPatchSide rnd g \<noteq> 0"
  shows "\<exists>markerOps. drawArucoMarkers rnd g c = Inr markerOps \<and> markerOps \<noteq> []
       \<and> map Inr (drawnImages markerOps)
           = map (\<lambda>k. createArucoMarker rnd k (meterToPixel rnd g (rnd (8 / 100))) 0)
               [0, 4, 1, 5, 2, 6, 3, 7]"
proof -
  let ?s = "meterToPixel rnd g (rnd (8 / 100))"
  obtain n0 where n0: "placeMarkers rnd g c 0 0 = Inr n0" "n0 \<noteq> []"
    "map Inr (drawnImages n0) = [createArucoMarker rnd (leftId 0) ?s 0, createArucoMarker rnd (rightId 0) ?s 0]"
    using placeMarkers_draws [OF assms, of c 0 0] by auto
  obtain n1 where n1: "placeMarkers rnd g c 1 1 = Inr n1"
    "map Inr (drawnImages n1) = [createArucoMarker rnd (leftId 1) ?s 0, createArucoMarker rnd (rightId 1) ?s 0]"
    using placeMarkers_draws [OF assms, of c 1 1] by auto
  obtain n2 where n2: "placeMarkers rnd g c (rnd (18 / 10)) 2 = Inr n2"
    "map Inr (drawnImages n2) = [createArucoMarker rnd (leftId 2) ?s 0, createArucoMarker rnd (rightId 2) ?s 0]"
    using placeMarkers_draws [OF assms, of c "rnd (18 / 10)" 2] by auto
  obtain n3 where n3: "placeMarkers rnd g c (rnd (24 / 10)) 3 = Inr n3"
    "map Inr (drawnImages n3) = [createArucoMarker rnd (leftId 3) ?s 0, createArucoMarker rnd (rightId 3) ?s 0]"
    using placeMarkers_draws [OF assms, of c "rnd (24 / 10)" 3] by auto
  note n = n0(1) n1(1) n2(1) n3(1) and ne = n0(2) and i = n0(3) n1(2) n2(2) n3(2)
  have "drawArucoMarkers rnd g c = Inr (n0 @ n1 @ n2 @ n3)"
    using n by (simp add: drawArucoMarkers_def marker_slots and_then_def)
  moreover have "map Inr (drawnImages (n0 @ n1 @ n2 @ n3))
      = map (\<lambda>k. createArucoMarker rnd k (meterToPixel rnd g (rnd (8 / 100))) 0)
               [0, 4, 1, 5, 2, 6, 3, 7]"
    using i by (simp add: drawnImages_append leftId_def rightId_def)
  ultimately show ?thesis using ne by auto
qed

lemma drawArucoMarkers_throws:
  assumes "markerPatchSide rnd g = 0"
  shows "drawArucoMarkers rnd g c = Inl InvalidStateError"
  using placeMarkers_throws [OF assms, of c 0 0]
  by (simp add: drawArucoMarkers_def marker_slots and_then_def)

section \<open>Properties of the fine ticks\<close>

lemma dvd_100_50: "100 dvd cm \<Longrightarrow> 50 dvd (cm::int)"
  by (rule dvd_trans [of 50 100]) simp_all

lemma dvd_50_10: "50 dvd cm \<Longrightarrow> 10 dvd (cm::int)"
  by (rule dvd_trans [of 10 50]) simp_all

lemma coarsestRule_cases:
  "coarsestRule cm = (if 100 dvd cm then 100 else if 50 dvd cm then 50 else if 10 dvd cm then 10 else 1)"
proof -
  have "{d \<in> set tickRules. d dvd cm} = set (filter (\<lambda>d. d dvd cm) tickRules)"
    by simp
  then show ?thesis
    using dvd_100_50 [of cm] dvd_50_10 [of cm]
    by (simp add: coarsestRule_def tickRules_def del: set_filter)
qed

lemma precisionTickSize_tier: "precisionTickSize rnd g cm = tierSize rnd g (coarsestRule cm)"
  by (simp add: precisionTickSize_def tierSize_def coarsestRule_cases js_rem_int_zero_iff)

lemma fine_positions_binary64:
  "\<exists>ps. for_positions binary64 (binary64 (28 / 10)) (binary64 (1 / 100)) (binary64 (14 / 10)) = Some ps
      \<and> map (cmValue binary64) ps = [140..280]"
  by (simp add: b64 for_positions.simps cmValue_def Math_round_def round_def upto.simps)

lemma extension_positions_binary64:
  "\<exists>qs. for_positions binary64 3 (binary64 (1 / 10)) (binary64 (29 / 10)) = Some qs \<and> length qs = 2"
  by (simp add: b64 for_positions.simps)

lemma drawPrecisionZoneScales_binary64:
  "\<exists>ps qs. drawPrecisionZoneScales binary64 g c =
             Some (map (precisionTick binary64 g (binary64 (real (height c) / 2))) ps
                   @ map (extensionTick binary64 g (binary64 (real (height c) / 2))) qs)
         \<and> map (cmValue binary64) ps = [140..280] \<and> length qs = 2"
proof -
  obtain ps where ps: "for_positions binary64 (binary64 (28 / 10)) (binary64 (1 / 100)) (binary64 (14 / 10)) = Some ps"
    "map (cmValue binary64) ps = [140..280]"
    using fine_positions_binary64 by blast
  obtain qs where qs: "for_positions binary64 3 (binary64 (1 / 10)) (binary64 (29 / 10)) = Some qs" "length qs = 2"
    using extension_positions_binary64 by blast
  have "drawPrecisionZoneScales binary64 g c =
             Some (map (precisionTick binary64 g (binary64 (real (height c) / 2))) ps
                   @ map (extensionTick binary64 g (binary64 (real (height c) / 2))) qs)"
    unfolding drawPrecisionZoneScales_def Let_def ps(1) qs(1) by simp
  then show ?thesis using ps(2) qs(2) by blast
qed

text \<open>
  C2. The length and width of a tick of the precision zone are those of the coarsest
  rule its centimetre value satisfies (100, else 50, else 10, else 1), for every integer
  centimetre value and on any rounding; the tick drawn for a position \<open>pos\<close> is the
  line of that size at \<open>getX pos\<close>, its centimetre value being \<open>Math.round(pos * 100)\<close>.
  On binary64 the pass returns, and its fine ticks are those of the centimetre values
  140 to 280, one each, followed by the two ticks of the extension.
\<close>

theorem precision_tick_tier:
  "precisionTickSize rnd g cm = tierSize rnd g (coarsestRule cm)
   \<and> precisionTick rnd g centerY pos =
       StrokeLine colors_scaleFine (snd (tierSize rnd g (coarsestRule (cmValue rnd pos))))
         (getX rnd g pos) (rnd (centerY - rnd (fst (tierSize rnd g (coarsestRule (cmValue rnd pos))) / 2)))
         (getX rnd g pos) (rnd (centerY + rnd (fst (tierSize rnd g (coarsestRule (cmValue rnd pos))) / 2)))
   \<and> (\<exists>ps qs. drawPrecisionZoneScales binary64 g c =
             Some (map (precisionTick binary64 g (binary64 (real (height c) / 2))) ps
                   @ map (extensionTick binary64 g (binary64 (real (height c) / 2))) qs)
         \<and> map (cmValue binary64) ps = [140..280] \<and> length qs = 2)"
proof (intro conjI)
  show "precisionTick rnd g centerY pos =
       StrokeLine colors_scaleFine (snd (tierSize rnd g (coarsestRule (cmValue rnd pos))))
         (getX rnd g pos) (rnd (centerY - rnd (fst (tierSize rnd g (coarsestRule (cmValue rnd pos))) / 2)))
         (getX rnd g pos) (rnd (centerY + rnd (fst (tierSize rnd g (coarsestRule (cmValue rnd pos))) / 2)))"
    by (simp add: precisionTick_def Let_def precisionTickSize_tier split_beta)
qed (fact precisionTickSize_tier drawPrecisionZoneScales_binary64)+

section \<open>Properties of generate\<close>

lemma draw_simps:
  "width (draw c new) = width c" "height (draw c new) = height c" "ops (draw c new) = ops c @ new"
  by (simp_all add: draw_def)

lemma speck_size:
  "width c = width c' \<Longrightarrow> height c = height c' \<Longrightarrow> speck rnd rand c = speck rnd rand c'"
  by (rule ext) (simp add: speck_def)

lemma drawBackground_size:
  "width c = width c' \<Longrightarrow> height c = height c'
     \<Longrightarrow> drawBackground rnd rand g c = drawBackground rnd rand g c'"
  by (simp add: drawBackground_def speck_size [of c c'])

lemma drawTakeoffZoneScales_size:
  "height c = height c' \<Longrightarrow> drawTakeoffZoneScales rnd g c = drawTakeoffZoneScales rnd g c'"
  by (simp add: drawTakeoffZoneScales_def)

lemma drawPrecisionZoneScales_size:
  "height c = height c' \<Longrightarrow> drawPrecisionZoneScales rnd g c = drawPrecisionZoneScales rnd g c'"
  by (simp add: drawPrecisionZoneScales_def)

lemma keyLabel_size:
  "height c = height c' \<Longrightarrow> keyLabel rnd g c = keyLabel rnd g c'"
  by (rule ext) (simp add: keyLabel_def)

lemma drawSimplifiedLabels_size:
  "height c = height c' \<Longrightarrow> drawSimplifiedLabels rnd g c = drawSimplifiedLabels rnd g c'"
  by (simp add: drawSimplifiedLabels_def keyLabel_size [of c c'])

lemma drawBorder_size:
  "width c = width c' \<Longrightarrow> height c = height c' \<Longrightarrow> drawBorder rnd g c = drawBorder rnd g c'"
  by (simp add: drawBorder_def)

lemma placeMarkers_size:
  "height c = height c' \<Longrightarrow> placeMarkers rnd g c = placeMarkers rnd g c'"
  by (intro ext) (simp add: placeMarkers_def)

lemma drawArucoMarkers_size:
  "height c = height c' \<Longrightarrow> drawArucoMarkers rnd g c = drawArucoMarkers rnd g c'"
  by (simp add: drawArucoMarkers_def placeMarkers_size [of c c'])

text \<open>generate, with every pass applied to the canvas as allocated.\<close>

lemma generate_passes:
  "generate rnd rand g =
     (case drawTakeoffZoneScales rnd g (initCanvas rnd g) of
        None \<Rightarrow> None
      | Some takeoffOps \<Rightarrow>
          (case drawPrecisionZoneScales rnd g (initCanvas rnd g) of
             None \<Rightarrow> None
           | Some precisionOps \<Rightarrow>
               Some (case drawArucoMarkers rnd g (initCanvas rnd g) of
                       Inl e \<Rightarrow> Inl e
                     | Inr markerOps \<Rightarrow>
                         Inr (Canvas (width (initCanvas rnd g)) (height (initCanvas rnd g))
                                (drawBackground rnd rand g (initCanvas rnd g) @ takeoffOps @ precisionOps
                                 @ drawSimplifiedLabels rnd g (initCanvas rnd g)
                                 @ drawBorder rnd g (initCanvas rnd g) @ markerOps)))))"
proof -
  let ?c0 = "initCanvas rnd g"
  have o: "ops ?c0 = []" by (simp add: initCanvas_def)
  have s: "drawTakeoffZoneScales rnd g (draw ?c0 a) = drawTakeoffZoneScales rnd g ?c0"
    "drawPrecisionZoneScales rnd g (draw (draw ?c0 a) b) = drawPrecisionZoneScales rnd g ?c0"
    "drawSimplifiedLabels rnd g (draw (draw (draw ?c0 a) b) d) = drawSimplifiedLabels rnd g ?c0"
    "drawBorder rnd g (draw (draw (draw (draw ?c0 a) b) d) e) = drawBorder rnd g ?c0"
    "drawArucoMarkers rnd g (draw (draw (draw (draw (draw ?c0 a) b) d) e) f) = drawArucoMarkers rnd g ?c0"
    for a b d e f
    by (rule drawTakeoffZoneScales_size drawPrecisionZoneScales_size drawSimplifiedLabels_size
          drawBorder_size drawArucoMarkers_size; simp add: draw_simps)+
  show ?thesis
  proof (cases "drawTakeoffZoneScales rnd g ?c0")
    case None
    then show ?thesis by (simp add: generate_def Let_def s)
  next
    case tk: (Some takeoffOps)
    show ?thesis
    proof (cases "drawPrecisionZoneScales rnd g ?c0")
      case None
      then show ?thesis by (simp add: generate_def Let_def s tk)
    next
      case pr: (Some precisionOps)
      show ?thesis
      proof (cases "drawArucoMarkers rnd g ?c0")
        case (Inl e)
        then show ?thesis by (simp add: generate_def Let_def s tk pr and_then_def)
      next
        case ar: (Inr markerOps)
        have "generate rnd rand g =
            Some (Inr (draw (draw (draw (draw (draw (draw ?c0 (drawBackground rnd rand g ?c0))
              takeoffOps) precisionOps) (drawSimplifiedLabels rnd g ?c0)) (drawBorder rnd g ?c0))
              markerOps))"
          by (simp add: generate_def Let_def s tk pr ar and_then_def)
        also have "draw (draw (draw (draw (draw (draw ?c0 (drawBackground rnd rand g ?c0))
              takeoffOps) precisionOps) (drawSimplifiedLabels rnd g ?c0)) (drawBorder rnd g ?c0))
              markerOps
            = Canvas (width ?c0) (height ?c0)
                (drawBackground rnd rand g ?c0 @ takeoffOps @ precisionOps
                 @ drawSimplifiedLabels rnd g ?c0 @ drawBorder rnd g ?c0 @ markerOps)"
          by (simp add: draw_def o)
        finally show ?thesis by (simp add: tk pr ar)
      qed
    qed
  qed
qed

lemma generate_binary64_returns:
  assumes "markerPatchSide binary64 g \<noteq> 0"
  shows "returns_canvas (generate binary64 rand g)"
proof -
  obtain ps qs where "drawPrecisionZoneScales binary64 g (initCanvas binary64 g) =
             Some (map (precisionTick binary64 g (binary64 (real (height (initCanvas binary64 g)) / 2))) ps
                   @ map (extensionTick binary64 g (binary64 (real (height (initCanvas binary64 g)) / 2))) qs)"
    using drawPrecisionZoneScales_binary64 [of g "initCanvas binary64 g"] by blast
  moreover obtain markerOps where "drawArucoMarkers binary64 g (initCanvas binary64 g) = Inr markerOps"
    using drawArucoMarkers_draws [OF assms] by blast
  ultimately show ?thesis
    by (simp add: generate_passes drawTakeoffZoneScales_binary64 returns_canvas_def)
qed

lemma generate_binary64_throws:
  assumes "markerPatchSide binary64 g = 0"
  shows "generate binary64 rand g = Some (Inl InvalidStateError)"
proof -
  obtain ps qs where "drawPrecisionZoneScales binary64 g (initCanvas binary64 g) =
             Some (map (precisionTick binary64 g (binary64 (real (height (initCanvas binary64 g)) / 2))) ps
                   @ map (extensionTick binary64 g (binary64 (real (height (initCanvas binary64 g)) / 2))) qs)"
    using drawPrecisionZoneScales_binary64 [of g "initCanvas binary64 g"] by blast
  then show ?thesis
    by (simp add: generate_passes drawTakeoffZoneScales_binary64 drawArucoMarkers_throws [OF assms])
qed

text \<open>The operations of a returned canvas are those of the six passes, in order.\<close>

lemma generate_returned_order:
  assumes "generate rnd rand g = Some (Inr c)"
  shows "\<exists>takeoffOps precisionOps markerOps.
           drawTakeoffZoneScales rnd g c = Some takeoffOps
         \<and> drawPrecisionZoneScales rnd g c = Some precisionOps
         \<and> drawArucoMarkers rnd g c = Inr markerOps
         \<and> ops c = drawBackground rnd rand g c @ takeoffOps @ precisionOps
                   @ drawSimplifiedLabels rnd g c @ drawBorder rnd g c @ markerOps"
proof -
  let ?c0 = "initCanvas rnd g"
  obtain takeoffOps precisionOps markerOps where
    p: "drawTakeoffZoneScales rnd g ?c0 = Some takeoffOps"
       "drawPrecisionZoneScales rnd g ?c0 = Some precisionOps"
       "drawArucoMarkers rnd g ?c0 = Inr markerOps"
    and c: "c = Canvas (width ?c0) (height ?c0)
                 (drawBackground rnd rand g ?c0 @ takeoffOps @ precisionOps
                  @ drawSimplifiedLabels rnd g ?c0 @ drawBorder rnd g ?c0 @ markerOps)"
    using assms unfolding generate_passes by (auto split: option.splits sum.splits)
  have w: "width c = width ?c0" "height c = height ?c0" by (simp_all add: c)
  have "drawTakeoffZoneScales rnd g c = Some takeoffOps"
    "drawPrecisionZoneScales rnd g c = Some precisionOps"
    "drawArucoMarkers rnd g c = Inr markerOps"
    using p w drawTakeoffZoneScales_size [of c ?c0] drawPrecisionZoneScales_size [of c ?c0]
      drawArucoMarkers_size [of c ?c0] by simp_all
  moreover have "ops c = drawBackground rnd rand g c @ takeoffOps @ precisionOps
                   @ drawSimplifiedLabels rnd g c @ drawBorder rnd g c @ markerOps"
    using w drawBackground_size [of c ?c0] drawSimplifiedLabels_size [of c ?c0]
      drawBorder_size [of c ?c0] by (simp add: c)
  ultimately show ?thesis by blast
qed

lemma reference_marker:
  "meterToPixel binary64 reference (binary64 (8 / 100)) = 96"
  "markerPatchSide binary64 reference = 96"
  by (simp_all add: markerPatchSide_def meterToPixel_def reference_fields to_unsigned_long_def
        trunc_def b64)

lemma reference_canvas:
  "width (initCanvas binary64 reference) = 3960" "height (initCanvas binary64 reference) = 1080"
  by (simp_all add: initCanvas_def reference_size canvas_width_def canvas_height_def
        reflect_dim_def to_unsigned_long_def trunc_def)

text \<open>
  C8. Every run of \<open>generate\<close> on binary64, for every generator and every sequence of
  random numbers, ends in one of two ways. Either it returns a canvas whose operations
  are those of the six passes in this order and nothing else: background, coarse ticks,
  fine ticks, labels, border, markers; so the border is drawn after every tick and
  label, the marker pass has drawn, and no operation follows those of the markers. Or
  the marker patch has no pixel: then both tick passes have returned and the marker
  pass, the last one, throws an InvalidStateError before it has drawn a marker, and this
  exception is the result of the run.
\<close>

theorem generate_runs_in_order:
  "(\<exists>c takeoffOps precisionOps markerOps.
        generate binary64 rand g = Some (Inr c)
      \<and> drawTakeoffZoneScales binary64 g c = Some takeoffOps
      \<and> drawPrecisionZoneScales binary64 g c = Some precisionOps
      \<and> drawArucoMarkers binary64 g c = Inr markerOps \<and> markerOps \<noteq> []
      \<and> ops c = drawBackground binary64 rand g c @ takeoffOps @ precisionOps
                @ drawSimplifiedLabels binary64 g c @ drawBorder binary64 g c @ markerOps)
   \<or> (generate binary64 rand g = Some (Inl InvalidStateError)
      \<and> (\<exists>takeoffOps precisionOps.
            drawTakeoffZoneScales binary64 g (initCanvas binary64 g) = Some takeoffOps
          \<and> drawPrecisionZoneScales binary64 g (initCanvas binary64 g) = Some precisionOps)
      \<and> drawArucoMarkers binary64 g (initCanvas binary64 g) = Inl InvalidStateError)"
proof (cases "markerPatchSide binary64 g = 0")
  case True
  have "\<exists>takeoffOps precisionOps.
            drawTakeoffZoneScales binary64 g (initCanvas binary64 g) = Some takeoffOps
          \<and> drawPrecisionZoneScales binary64 g (initCanvas binary64 g) = Some precisionOps"
    using drawTakeoffZoneScales_binary64 [of g "initCanvas binary64 g"]
      drawPrecisionZoneScales_binary64 [of g "initCanvas binary64 g"] by blast
  then show ?thesis
    using generate_binary64_throws [OF True, of rand] drawArucoMarkers_throws [OF True]
    by blast
next
  case False
  then obtain c where c: "generate binary64 rand g = Some (Inr c)"
    using generate_binary64_returns [OF False, of rand]
    by (auto simp: returns_canvas_def split: option.splits sum.splits)
  from generate_returned_order [OF c] obtain takeoffOps precisionOps markerOps where
    o: "drawTakeoffZoneScales binary64 g c = Some takeoffOps"
       "drawPrecisionZoneScales binary64 g c = Some precisionOps"
       "drawArucoMarkers binary64 g c = Inr markerOps"
       "ops c = drawBackground binary64 rand g c @ takeoffOps @ precisionOps
                @ drawSimplifiedLabels binary64 g c @ drawBorder binary64 g c @ markerOps"
    by blast
  have "markerOps \<noteq> []"
    using drawArucoMarkers_draws [OF False, of c] o(3) by auto
  then show ?thesis using c o by blast
qed

lemma meterToPixel_config: "meterToPixel rnd (g\<lparr>config := cfg\<rparr>) = meterToPixel rnd g"
  by (rule ext) (simp add: meterToPixel_def)

lemma getX_config: "getX rnd (g\<lparr>config := cfg\<rparr>) = getX rnd g"
  by (intro ext, unfold getX_def meterToPixel_config, rule refl)

lemma drawBackground_config: "drawBackground rnd rand (g\<lparr>config := cfg\<rparr>) = drawBackground rnd rand g"
  by (intro ext, unfold drawBackground_def, rule refl)

lemma drawTakeoffZoneScales_config:
  "drawTakeoffZoneScales rnd (g\<lparr>config := cfg\<rparr>) = drawTakeoffZoneScales rnd g"
proof -
  have h: "takeoffTickHeight rnd (g\<lparr>config := cfg\<rparr>) = takeoffTickHeight rnd g"
    by (intro ext, unfold takeoffTickHeight_def meterToPixel_config, rule refl)
  have t: "takeoffTick rnd (g\<lparr>config := cfg\<rparr>) = takeoffTick rnd g"
    by (intro ext, unfold takeoffTick_def meterToPixel_config getX_config h, rule refl)
  show ?thesis
    by (intro ext, unfold drawTakeoffZoneScales_def meterToPixel_config getX_config t, rule refl)
qed

lemma drawPrecisionZoneScales_config:
  "drawPrecisionZoneScales rnd (g\<lparr>config := cfg\<rparr>) = drawPrecisionZoneScales rnd g"
proof -
  have s: "precisionTickSize rnd (g\<lparr>config := cfg\<rparr>) = precisionTickSize rnd g"
    by (intro ext, unfold precisionTickSize_def meterToPixel_config, rule refl)
  have t: "precisionTick rnd (g\<lparr>config := cfg\<rparr>) = precisionTick rnd g"
    by (intro ext, unfold precisionTick_def getX_config s, rule refl)
  have e: "extensionTick rnd (g\<lparr>config := cfg\<rparr>) = extensionTick rnd g"
    by (intro ext, unfold extensionTick_def meterToPixel_config getX_config, rule refl)
  show ?thesis
    by (intro ext, unfold drawPrecisionZoneScales_def t e, rule refl)
qed

lemma drawSimplifiedLabels_config:
  "drawSimplifiedLabels rnd (g\<lparr>config := cfg\<rparr>) = drawSimplifiedLabels rnd g"
proof -
  have k: "keyLabel rnd (g\<lparr>config := cfg\<rparr>) = keyLabel rnd g"
    by (intro ext, unfold keyLabel_def meterToPixel_config getX_config, rule refl)
  show ?thesis
    by (intro ext, unfold drawSimplifiedLabels_def meterToPixel_config getX_config k, rule refl)
qed

lemma drawBorder_config: "drawBorder rnd (g\<lparr>config := cfg\<rparr>) = drawBorder rnd g"
  by (intro ext, unfold drawBorder_def meterToPixel_config, rule refl)

lemma drawArucoMarkers_config: "drawArucoMarkers rnd (g\<lparr>config := cfg\<rparr>) = drawArucoMarkers rnd g"
proof -
  have p: "placeMarkers rnd (g\<lparr>config := cfg\<rparr>) = placeMarkers rnd g"
    by (intro ext, unfold placeMarkers_def meterToPixel_config getX_config, rule refl)
  show ?thesis
    by (intro ext, unfold drawArucoMarkers_def p, rule refl)
qed

lemma initCanvas_config:
  "initCanvas rnd (g\<lparr>config := (config g)\<lparr>zones := z, scales := s\<rparr>\<rparr>) = initCanvas rnd g"
  by (simp add: initCanvas_def initCanvas_width_def initCanvas_height_def)

lemma generate_config:
  "generate rnd rand (g\<lparr>config := (config g)\<lparr>zones := z, scales := s\<rparr>\<rparr>) = generate rnd rand g"
  unfolding generate_passes initCanvas_config drawBackground_config drawTakeoffZoneScales_config
    drawPrecisionZoneScales_config drawSimplifiedLabels_config drawBorder_config
    drawArucoMarkers_config
  by (rule refl)

text \<open>
  C9, amended. \<open>generate\<close> validates nothing: its result does not depend on the zone
  boundaries or on the spacings of the configuration, so a configuration malformed in
  them is drawn like the well-formed one. On binary64 every run ends; it returns the
  finished canvas unless the marker patch has no pixel, and then the marker pass, the
  last one, throws an InvalidStateError.
\<close>

theorem generate_without_validation:
  "generate rnd rand (g\<lparr>config := (config g)\<lparr>zones := z, scales := s\<rparr>\<rparr>) = generate rnd rand g
   \<and> (markerPatchSide binary64 g \<noteq> 0 \<longrightarrow> returns_canvas (generate binary64 rand g))
   \<and> (markerPatchSide binary64 g = 0 \<longrightarrow> generate binary64 rand g = Some (Inl InvalidStateError))"
  using generate_config generate_binary64_returns generate_binary64_throws by blast

lemma tiny_marker:
  "markerPatchSide binary64 (MatGenerator binary64 (no_options\<lparr>o_pixelsPerMeter := Some 1\<rparr>)) = 0"
  by (simp add: markerPatchSide_def meterToPixel_def MatGenerator_def no_options_def
        to_unsigned_long_def trunc_def b64)

theorem generate_without_validation_witness:
  "markerPatchSide binary64 reference \<noteq> 0
   \<and> returns_canvas (generate binary64 fixed_random reference)
   \<and> markerPatchSide binary64 (MatGenerator binary64 (no_options\<lparr>o_pixelsPerMeter := Some 1\<rparr>)) = 0
   \<and> generate binary64 fixed_random (MatGenerator binary64 (no_options\<lparr>o_pixelsPerMeter := Some 1\<rparr>))
       = Some (Inl InvalidStateError)"
  using generate_without_validation [where rnd = binary64 and rand = fixed_random and g = reference]
    generate_without_validation
      [where rnd = binary64 and rand = fixed_random
         and g = "MatGenerator binary64 (no_options\<lparr>o_pixelsPerMeter := Some 1\<rparr>)"]
  by (simp add: reference_marker tiny_marker)

lemma reversed_marker: "markerPatchSide binary64 (MatGenerator binary64 reversed_options) = 96"
  by (simp add: markerPatchSide_def meterToPixel_def MatGenerator_def reversed_options_def
        no_options_def to_unsigned_long_def trunc_def b64)

text \<open>
  C9, as stated, fails: the configuration with the flight zone reversed and a negative
  fine spacing is malformed, and \<open>generate\<close> returns a canvas for it.
\<close>

theorem generate_malformed_counterexample:
  "malformed (MatGenerator binary64 reversed_options)
   \<and> returns_canvas (generate binary64 fixed_random (MatGenerator binary64 reversed_options))"
proof
  show "malformed (MatGenerator binary64 reversed_options)"
    by (simp add: malformed_def MatGenerator_def reversed_options_def no_options_def
          zone_boundaries_def)
  show "returns_canvas (generate binary64 fixed_random (MatGenerator binary64 reversed_options))"
    by (rule generate_binary64_returns) (simp add: reversed_marker)
qed

lemma patches_distinct:
  "distinct (map (\<lambda>k. createArucoMarker binary64 k 96 0) [0, 1, 2, 3, 4, 5, 6, 7, 8, 9, 10, 11])"
  by (simp add: createArucoMarker_def Let_def js_rem_int_def array_get_def ARUCO_DICT_4X4_50_def
        dataCells_def dataCell_def upt_rec)

text \<open>
  C1 on the code. With the reference generator on binary64 the surface is 3960 by 1080
  pixels and the marker pass draws eight patches, at the four positions
  \<open>0, 1.0, 1.8, 2.4\<close>: in order those of the ids \<open>0, 4, 1, 5, 2, 6, 3, 7\<close>, that is
  \<open>0, 1, 2, 3\<close> on the left and \<open>4, 5, 6, 7\<close> on the right. The table \<open>ARUCO_POSITIONS\<close>
  gives \<open>8, 9, 10, 11\<close> for the left and \<open>0, 1, 2, 3\<close> for the right. The patches of the
  twelve ids differ from each other, so no patch of the ids 8 to 11 is drawn.
\<close>

theorem reference_marker_ids:
  "width (initCanvas binary64 reference) = 3960 \<and> height (initCanvas binary64 reference) = 1080
   \<and> arucoPositions binary64 = [0, 1, binary64 (18 / 10), binary64 (24 / 10)]
   \<and> (\<exists>markerOps. drawArucoMarkers binary64 reference (initCanvas binary64 reference) = Inr markerOps
         \<and> map Inr (drawnImages markerOps)
             = map (\<lambda>k. createArucoMarker binary64 k 96 0) [0, 4, 1, 5, 2, 6, 3, 7])
   \<and> map leftId [0..<4] = [0, 1, 2, 3] \<and> map rightId [0..<4] = [4, 5, 6, 7]
   \<and> map fst (ARUCO_POSITIONS binary64) = [8, 9, 10, 11, 0, 1, 2, 3]
   \<and> distinct (map (\<lambda>k. createArucoMarker binary64 k 96 0) [0, 1, 2, 3, 4, 5, 6, 7, 8, 9, 10, 11])"
proof (intro conjI)
  have "markerPatchSide binary64 reference \<noteq> 0" by (simp add: reference_marker)
  from drawArucoMarkers_draws [OF this, of "initCanvas binary64 reference"]
  show "\<exists>markerOps. drawArucoMarkers binary64 reference (initCanvas binary64 reference) = Inr markerOps
         \<and> map Inr (drawnImages markerOps)
             = map (\<lambda>k. createArucoMarker binary64 k 96 0) [0, 4, 1, 5, 2, 6, 3, 7]"
    unfolding reference_marker by blast
  show "arucoPositions binary64 = [0, 1, binary64 (18 / 10), binary64 (24 / 10)]"
    by (simp add: arucoPositions_def)
  show "map leftId [0..<4] = [0, 1, 2, 3]" "map rightId [0..<4] = [4, 5, 6, 7]"
    by (simp_all add: leftId_def rightId_def upt_rec)
  show "map fst (ARUCO_POSITIONS binary64) = [8, 9, 10, 11, 0, 1, 2, 3]"
    by (simp add: ARUCO_POSITIONS_def)
qed (fact reference_canvas patches_distinct)+

end
